theory Spec2Isabelle
  imports Main "HOL-Library.AList"
begin

text \<open>
  A model of \<open>src/lib/find-package-json.js\<close> of pleasure-utils and of the functions
  bundled with it: \<open>findPackageJson\<close>, \<open>findRoot\<close>, \<open>findConfig\<close>, \<open>extendConfig\<close>,
  \<open>getMiddlewareMutation\<close> and \<open>getConfig\<close>. The module-level variables of the code
  (the registry \<open>middlewares\<close>, a plain object) and the parts of the runtime it touches
  (working directory, environment, files, the two caches of the module loader, the
  prototypes of the built-in objects, console) are fields of an explicit state. An
  exception is a value of type \<open>error\<close>; a call that never returns has no result. What
  the code imports (\<open>path\<close>, \<open>require\<close>, \<open>deepmerge\<close>, \<open>lodash/get\<close>) is modelled on a
  POSIX system, as far as the code uses it.
\<close>

section \<open>POSIX paths: the functions of Node's \<open>path\<close> module that the code calls\<close>

text \<open>
  \<open>find-package-json.js\<close> calls \<open>path.join\<close>, \<open>path.resolve\<close> and \<open>path.dirname\<close>.
  They belong to the Node runtime, not to the repository; they are modelled here on
  character lists, following the POSIX implementation of the runtime: a path is cut at
  every \<open>/\<close>, the segments are normalised (\<open>.\<close> and empty segments dropped, \<open>..\<close> removing
  the segment before it) and glued together again.
\<close>

fun splitOn :: "char \<Rightarrow> string \<Rightarrow> string list" where
  "splitOn sep [] = [[]]"
| "splitOn sep (c # cs) =
     (if c = sep then [] # splitOn sep cs
      else (case splitOn sep cs of
              [] \<Rightarrow> [[c]]
            | s # ss \<Rightarrow> (c # s) # ss))"

fun joinWith :: "string \<Rightarrow> string list \<Rightarrow> string" where
  "joinWith sep [] = []"
| "joinWith sep [s] = s"
| "joinWith sep (s # t # ss) = s @ sep @ joinWith sep (t # ss)"

text \<open>
  \<open>normalizeString(path, allowAboveRoot)\<close> of the runtime, on the segments of the path;
  \<open>res\<close> is the list of segments kept so far.
\<close>

fun normalizeString :: "bool \<Rightarrow> string list \<Rightarrow> string list \<Rightarrow> string list" where
  "normalizeString allowAboveRoot res [] = res"
| "normalizeString allowAboveRoot res (seg # segs) =
     (if seg = [] \<or> seg = ''.'' then normalizeString allowAboveRoot res segs
      else if seg = ''..'' then
        (if res \<noteq> [] \<and> last res \<noteq> ''..''
           then normalizeString allowAboveRoot (butlast res) segs
         else if allowAboveRoot
           then normalizeString allowAboveRoot (res @ [''..'']) segs
         else normalizeString allowAboveRoot res segs)
      else normalizeString allowAboveRoot (res @ [seg]) segs)"

definition isAbsolute :: "string \<Rightarrow> bool" where
  "isAbsolute p = (p \<noteq> [] \<and> hd p = CHR ''/'')"

definition path_normalize :: "string \<Rightarrow> string" where
  "path_normalize p =
     (if p = [] then ''.''
      else
        let trailingSeparator = (last p = CHR ''/'');
            res = joinWith ''/'' (normalizeString (\<not> isAbsolute p) [] (splitOn (CHR ''/'') p))
        in if res = [] then
             (if isAbsolute p then ''/'' else if trailingSeparator then ''./'' else ''.'')
           else (if isAbsolute p then ''/'' else []) @ res
                @ (if trailingSeparator then ''/'' else []))"

definition path_join :: "string list \<Rightarrow> string" where
  "path_join args =
     (let joined = filter (\<lambda>a. a \<noteq> []) args
      in if joined = [] then ''.'' else path_normalize (joinWith ''/'' joined))"

text \<open>
  \<open>path.resolve(...args)\<close>: the arguments are taken from the right until an absolute
  one is met; the working directory \<open>cwd\<close> comes last.
\<close>

fun resolveArgs :: "string list \<Rightarrow> string \<Rightarrow> string" where
  "resolveArgs [] resolvedPath = resolvedPath"
| "resolveArgs (p # ps) resolvedPath =
     (if p = [] then resolveArgs ps resolvedPath
      else if isAbsolute p then p @ ''/'' @ resolvedPath
      else resolveArgs ps (p @ ''/'' @ resolvedPath))"

definition path_resolve :: "string \<Rightarrow> string list \<Rightarrow> string" where
  "path_resolve cwd args =
     (let resolvedPath = resolveArgs (rev (cwd # args)) [];
          resolvedAbsolute = isAbsolute resolvedPath;
          res = joinWith ''/''
                  (normalizeString (\<not> resolvedAbsolute) [] (splitOn (CHR ''/'') resolvedPath))
      in if resolvedAbsolute then ''/'' @ res
         else if res \<noteq> [] then res else ''.'')"

text \<open>
  \<open>path.dirname(path)\<close>: the scan runs from the last character down to index 1, skips
  the trailing separators and stops at the first separator after a name; \<open>end\<close> is the
  index of that separator.
\<close>

definition path_dirname :: "string \<Rightarrow> string" where
  "path_dirname p =
     (if p = [] then ''.''
      else
        let hasRoot = (hd p = CHR ''/'');
            afterName = dropWhile (\<lambda>c. c \<noteq> CHR ''/'')
                          (dropWhile (\<lambda>c. c = CHR ''/'') (rev (tl p)));
            end = length afterName
        in if afterName = [] then (if hasRoot then ''/'' else ''.'')
           else if hasRoot \<and> end = 1 then ''//''
           else take end p)"

section \<open>Configuration values\<close>

text \<open>
  A configuration document is a tree of JavaScript values. An object is the list of its
  own enumerable properties in insertion order. Numbers are integers. \<open>JNative\<close> stands
  for a value that is not data: a built-in function or prototype object of the runtime,
  which a lookup can reach through an inherited member such as \<open>constructor\<close>; it has no
  enumerable property of its own.
\<close>

datatype jsval =
    JUndefined
  | JNull
  | JBool bool
  | JNum int
  | JStr string
  | JArr "jsval list"
  | JObj "(string \<times> jsval) list"
  | JNative string

fun truthy :: "jsval \<Rightarrow> bool" where
  "truthy JUndefined = False"
| "truthy JNull = False"
| "truthy (JBool b) = b"
| "truthy (JNum n) = (n \<noteq> 0)"
| "truthy (JStr s) = (s \<noteq> [])"
| "truthy (JArr xs) = True"
| "truthy (JObj ps) = True"
| "truthy (JNative n) = True"

fun isArray :: "jsval \<Rightarrow> bool" where
  "isArray (JArr xs) = True"
| "isArray v = False"

fun isMergeableObject :: "jsval \<Rightarrow> bool" where
  "isMergeableObject (JArr xs) = True"
| "isMergeableObject (JObj ps) = True"
| "isMergeableObject v = False"

fun nullish :: "jsval \<Rightarrow> bool" where
  "nullish JUndefined = True"
| "nullish JNull = True"
| "nullish v = False"

text \<open>The decimal name of an index, as JavaScript writes array and string indices.\<close>

fun showNat :: "nat \<Rightarrow> string" where
  "showNat n =
     (if n < 10 then [char_of (48 + n)]
      else showNat (n div 10) @ [char_of (48 + n mod 10)])"

declare showNat.simps [simp del]

definition indexOfKey :: "string \<Rightarrow> nat \<Rightarrow> nat option" where
  "indexOfKey key n = find (\<lambda>i. showNat i = key) [0..<n]"

text \<open>
  The own properties that a read \<open>value[key]\<close> finds: the properties of an object, the
  indices and the \<open>length\<close> of an array or of a string.
\<close>

fun ownProperty :: "jsval \<Rightarrow> string \<Rightarrow> jsval option" where
  "ownProperty (JObj ps) key = map_of ps key"
| "ownProperty (JArr xs) key =
     (if key = ''length'' then Some (JNum (int (length xs)))
      else map_option (\<lambda>i. xs ! i) (indexOfKey key (length xs)))"
| "ownProperty (JStr s) key =
     (if key = ''length'' then Some (JNum (int (length s)))
      else map_option (\<lambda>i. JStr [s ! i]) (indexOfKey key (length s)))"
| "ownProperty v key = None"

section \<open>The ascent to the project marker\<close>

text \<open>
  The process state that root discovery reads: the working directory and the environment
  variable \<open>PLEASURE_ROOT\<close> (\<open>None\<close> when unset).
\<close>

record process =
  cwd :: string
  PLEASURE_ROOT :: "string option"

text \<open>
  The runtime of the process has, besides these, the prototypes of its built-in
  objects: \<open>inherited v key\<close> is the member named \<open>key\<close> that the value \<open>v\<close> inherits
  from its prototype chain (from \<open>Object.prototype\<close>, \<open>Array.prototype\<close> and so on), and
  \<open>None\<close> when it inherits no such member. The prototypes are what the process has
  made of them; the model takes them as they are given.
\<close>

record runtime = process +
  inherited :: "jsval \<Rightarrow> string \<Rightarrow> jsval option"

text \<open>\<open>process.env.PLEASURE_ROOT || dflt\<close>: unset and empty are both falsy.\<close>

definition envRootOr :: "'a process_scheme \<Rightarrow> string \<Rightarrow> string" where
  "envRootOr pr dflt =
     (case PLEASURE_ROOT pr of
        None \<Rightarrow> dflt
      | Some r \<Rightarrow> if r = [] then dflt else r)"

text \<open>
  \<open>dir = dir || path.resolve(process.cwd(), process.env.PLEASURE_ROOT || './')\<close>: the
  argument is \<open>None\<close> for \<open>undefined\<close>, and the empty string is falsy as well.
\<close>

definition startDir :: "'a process_scheme \<Rightarrow> string option \<Rightarrow> string" where
  "startDir pr dir =
     (case dir of
        None \<Rightarrow> path_resolve (cwd pr) [envRootOr pr ''./'']
      | Some d \<Rightarrow> if d = [] then path_resolve (cwd pr) [envRootOr pr ''./''] else d)"

text \<open>
  \<open>findPackageJson(dir)\<close>. The result is \<open>Some (Some local)\<close> when the function
  returns the path of the marker, \<open>Some None\<close> when it returns \<open>undefined\<close>, and
  \<open>None\<close> when the recursion never returns. \<open>existsSync\<close> is the existence test of
  the file system.
\<close>

partial_function (option) findPackageJson ::
  "'a process_scheme \<Rightarrow> (string \<Rightarrow> bool) \<Rightarrow> string option \<Rightarrow> string option option" where
  "findPackageJson pr existsSync dir =
     (let dir = startDir pr dir;
          local = path_join [dir, ''package.json'']
      in if \<not> existsSync local then
           (if local = ''/'' then Some None
            else findPackageJson pr existsSync (Some (path_join [dir, ''../''])))
         else Some (Some local))"

declare findPackageJson.simps [code]

text \<open>
  The directory reached after \<open>k\<close> steps of the ascent: each step is
  \<open>path.join(dir, '../')\<close>.
\<close>

fun ancestor :: "nat \<Rightarrow> string \<Rightarrow> string" where
  "ancestor 0 d = d"
| "ancestor (Suc k) d = ancestor k (path_join [d, ''../''])"

section \<open>The deep merge (\<open>import merge from 'deepmerge'\<close>)\<close>

text \<open>
  \<open>deepmerge\<close> is a dependency of the repository. \<open>getConfig\<close> and
  \<open>getMiddlewareMutation\<close> call it with no options, so the library's defaults apply:
  the default \<open>arrayMerge\<close> concatenates (\<open>target.concat(source)\<close>), and a value
  is mergeable when it is an array or an object. Every value the library copies is
  cloned; on immutable values the clone is the value itself.

  \<open>deepmerge(target, source)\<close>: when exactly one of the two is an array the source
  replaces the target; two arrays go to \<open>arrayMerge\<close>; otherwise \<open>mergeObject\<close> builds
  a destination from the properties of the target (when the target is an object) and
  then visits the keys of the source in order (\<open>mergeKeys\<close>): a key that is an own
  property of the target and whose source value is mergeable is merged recursively, any
  other key takes the source value.
\<close>

definition defaultArrayMerge :: "jsval list \<Rightarrow> jsval list \<Rightarrow> jsval" where
  "defaultArrayMerge target source = JArr (target @ source)"

fun ownProps :: "jsval \<Rightarrow> (string \<times> jsval) list" where
  "ownProps (JObj ps) = ps"
| "ownProps v = []"

text \<open>\<open>Object.keys\<close> of a string primitive: its indices, each holding one character.\<close>

definition charProps :: "string \<Rightarrow> (string \<times> jsval) list" where
  "charProps s = map (\<lambda>i. (showNat i, JStr [s ! i])) [0..<length s]"

fun deepmerge :: "jsval \<Rightarrow> jsval \<Rightarrow> jsval"
  and mergeKeys ::
    "jsval \<Rightarrow> (string \<times> jsval) list \<Rightarrow> (string \<times> jsval) list \<Rightarrow> (string \<times> jsval) list"
where
  "deepmerge target source =
     (if isArray source \<noteq> isArray target then source
      else case source of
          JArr ys \<Rightarrow> (case target of JArr xs \<Rightarrow> defaultArrayMerge xs ys | _ \<Rightarrow> source)
        | JObj ps \<Rightarrow> JObj (mergeKeys target ps (ownProps target))
        | JStr s \<Rightarrow> JObj (fold (\<lambda>(key, v). AList.update key v) (charProps s) (ownProps target))
        | _ \<Rightarrow> JObj (ownProps target))"
| "mergeKeys target [] destination = destination"
| "mergeKeys target ((key, v) # ps) destination =
     mergeKeys target ps
       (AList.update key
          (case map_of (ownProps target) key of
             None \<Rightarrow> v
           | Some t \<Rightarrow> if isMergeableObject v then deepmerge t v else v)
          destination)"

declare deepmerge.simps [simp del]

text \<open>
  The call \<open>merge(target, source)\<close> as the code makes it. The library raises in one
  place on these values: \<open>mergeObject\<close> reads \<open>Object.keys(source)\<close>, which throws a
  \<open>TypeError\<close> when the source is \<open>null\<close> or \<open>undefined\<close>. Inside the recursion the
  source is always mergeable, so only the outermost call can fail.
\<close>

datatype error =
    ModuleNotFound string
  | FileNotFound string
  | ModuleLoadError string
  | TypeError string

definition merge :: "jsval \<Rightarrow> jsval \<Rightarrow> error + jsval" where
  "merge target source =
     (if \<not> isArray target \<and> nullish source
      then Inl (TypeError ''Cannot convert undefined or null to object'')
      else Inr (deepmerge target source))"

text \<open>\<open>merge.all(array)\<close>: \<open>array.reduce((prev, next) => deepmerge(prev, next), {})\<close>.\<close>

fun reduceMerge :: "jsval \<Rightarrow> jsval list \<Rightarrow> error + jsval" where
  "reduceMerge prev [] = Inr prev"
| "reduceMerge prev (next # rest) =
     (case merge prev next of
        Inl e \<Rightarrow> Inl e
      | Inr acc \<Rightarrow> reduceMerge acc rest)"

definition merge_all :: "jsval list \<Rightarrow> error + jsval" where
  "merge_all array = reduceMerge (JObj []) array"

section \<open>Path lookup (\<open>import get from 'lodash/get'\<close>)\<close>

text \<open>
  \<open>get(object, path, defaultValue)\<close> of lodash, for a path given as a string.

  A read \<open>object[key]\<close> finds an own property first and an inherited member otherwise;
  \<open>key in Object(object)\<close> holds when either exists.
\<close>

definition getProperty :: "(jsval \<Rightarrow> string \<Rightarrow> jsval option) \<Rightarrow> jsval \<Rightarrow> string \<Rightarrow> jsval" where
  "getProperty inh object key =
     (case ownProperty object key of
        Some v \<Rightarrow> v
      | None \<Rightarrow> (case inh object key of Some v \<Rightarrow> v | None \<Rightarrow> JUndefined))"

definition hasProperty :: "(jsval \<Rightarrow> string \<Rightarrow> jsval option) \<Rightarrow> jsval \<Rightarrow> string \<Rightarrow> bool" where
  "hasProperty inh object key = (ownProperty object key \<noteq> None \<or> inh object key \<noteq> None)"

text \<open>
  \<open>stringToPath\<close> cuts a path into property names with one regular expression, applied
  from left to right. At each position it takes, in this order: a run of characters
  other than the dot and the two brackets; a bracket group, which is an opening bracket,
  then a number (an optional minus sign, digits, optionally a dot and digits) or a quoted
  string, then the closing bracket; the empty name, where a separator (a dot, or an empty
  pair of brackets) is followed by another separator or by the end. Where none of these
  fits, the character is passed over. Inside a quoted string a backslash takes the next
  character with it; the name is the string between the quotes with every escaping
  backslash removed. A path that begins with a dot has the empty name first.

  \<open>bracketNumber\<close>, \<open>quotedBody\<close> and \<open>bracketKey\<close> read the text after an opening
  bracket and give the name with the number of characters they used.
\<close>

definition isDigit :: "char \<Rightarrow> bool" where
  "isDigit c = (c \<in> set ''0123456789'')"

definition isPathSpecial :: "char \<Rightarrow> bool" where
  "isPathSpecial c = (c = CHR ''.'' \<or> c = CHR ''['' \<or> c = CHR '']'')"

definition bracketNumber :: "string \<Rightarrow> (string \<times> nat) option" where
  "bracketNumber t =
     (let sign = (if t \<noteq> [] \<and> hd t = CHR ''-'' then ''-'' else []);
          t1 = drop (length sign) t;
          ds = takeWhile isDigit t1;
          t2 = dropWhile isDigit t1;
          fs = takeWhile isDigit (drop 1 t2);
          t3 = dropWhile isDigit (drop 1 t2)
      in if ds = [] then None
         else if t2 \<noteq> [] \<and> hd t2 = CHR '']''
           then Some (sign @ ds, length sign + length ds + 1)
         else if t2 \<noteq> [] \<and> hd t2 = CHR ''.'' \<and> fs \<noteq> [] \<and> t3 \<noteq> [] \<and> hd t3 = CHR '']''
           then Some (sign @ ds @ ''.'' @ fs, length sign + length ds + 1 + length fs + 1)
         else None)"

fun quotedBody :: "char \<Rightarrow> string \<Rightarrow> (string \<times> nat) option" where
  "quotedBody q [] = None"
| "quotedBody q [c] = None"
| "quotedBody q (c # d # cs) =
     (if c = q then (if d = CHR '']'' then Some ([], 2) else None)
      else if c = CHR 0x5C then
        (if d = CHR 0x0A \<or> d = CHR 0x0D then None
         else map_option (\<lambda>(body, n). (c # d # body, n + 2)) (quotedBody q cs))
      else map_option (\<lambda>(body, n). (c # body, n + 1)) (quotedBody q (d # cs)))"

fun unescape :: "string \<Rightarrow> string" where
  "unescape [] = []"
| "unescape [c] = (if c = CHR 0x5C then [] else [c])"
| "unescape (c # d # cs) =
     (if c = CHR 0x5C then (if d = CHR 0x5C then d # unescape cs else unescape (d # cs))
      else c # unescape (d # cs))"

definition bracketKey :: "string \<Rightarrow> (string \<times> nat) option" where
  "bracketKey t =
     (case bracketNumber t of
        Some r \<Rightarrow> Some r
      | None \<Rightarrow>
          (case t of
             [] \<Rightarrow> None
           | q # cs \<Rightarrow>
               if q = CHR 0x22 \<or> q = CHR 0x27
               then map_option (\<lambda>(body, n). (unescape body, n + 1)) (quotedBody q cs)
               else None))"

definition afterSeparator :: "string \<Rightarrow> string option" where
  "afterSeparator t =
     (if t \<noteq> [] \<and> hd t = CHR ''.'' then Some (tl t)
      else if take 2 t = ''[]'' then Some (drop 2 t)
      else None)"

definition emptyKeyAt :: "string \<Rightarrow> bool" where
  "emptyKeyAt t =
     (case afterSeparator t of
        None \<Rightarrow> False
      | Some u \<Rightarrow> u = [] \<or> afterSeparator u \<noteq> None)"

text \<open>\<open>propNames skip t\<close>: the names found in \<open>t\<close> after passing over \<open>skip\<close> characters.\<close>

fun propNames :: "nat \<Rightarrow> string \<Rightarrow> string list" where
  "propNames skip [] = []"
| "propNames (Suc skip) (c # cs) = propNames skip cs"
| "propNames 0 (c # cs) =
     (if \<not> isPathSpecial c then
        (c # takeWhile (\<lambda>x. \<not> isPathSpecial x) cs)
          # propNames (length (takeWhile (\<lambda>x. \<not> isPathSpecial x) cs)) cs
      else if c = CHR ''['' then
        (case bracketKey cs of
           Some (key, n) \<Rightarrow> key # propNames n cs
         | None \<Rightarrow> if emptyKeyAt (c # cs) then [] # propNames 0 cs else propNames 0 cs)
      else if c = CHR ''.'' \<and> emptyKeyAt (c # cs) then [] # propNames 0 cs
      else propNames 0 cs)"

definition stringToPath :: "string \<Rightarrow> string list" where
  "stringToPath path =
     (if path \<noteq> [] \<and> hd path = CHR ''.'' then [[]] else []) @ propNames 0 path"

text \<open>
  \<open>isKey\<close> takes the whole string as one name unless it is a deep path (it has a dot,
  or a bracket group: an opening bracket closed after characters that are no brackets,
  or after a quoted string). A deep path is still one name when the object has a
  property of that very name.
\<close>

definition closesSimply :: "string \<Rightarrow> bool" where
  "closesSimply t =
     (case dropWhile (\<lambda>c. c \<noteq> CHR ''['' \<and> c \<noteq> CHR '']'') t of
        [] \<Rightarrow> False
      | d # ds \<Rightarrow> d = CHR '']'')"

definition closesQuoted :: "string \<Rightarrow> bool" where
  "closesQuoted t =
     (case t of
        [] \<Rightarrow> False
      | q # cs \<Rightarrow> (q = CHR 0x22 \<or> q = CHR 0x27) \<and> quotedBody q cs \<noteq> None)"

fun hasBracketGroup :: "string \<Rightarrow> bool" where
  "hasBracketGroup [] = False"
| "hasBracketGroup (c # cs) =
     (c = CHR ''['' \<and> (closesSimply cs \<or> closesQuoted cs) \<or> hasBracketGroup cs)"

definition isDeepProp :: "string \<Rightarrow> bool" where
  "isDeepProp path = (CHR ''.'' \<in> set path \<or> hasBracketGroup path)"

definition castPath ::
  "(jsval \<Rightarrow> string \<Rightarrow> jsval option) \<Rightarrow> string \<Rightarrow> jsval \<Rightarrow> string list" where
  "castPath inh path object =
     (if \<not> isDeepProp path \<or> (\<not> nullish object \<and> hasProperty inh object path) then [path]
      else stringToPath path)"

text \<open>
  \<open>baseGet\<close> follows the names while the value is neither \<open>null\<close> nor \<open>undefined\<close>, and
  yields \<open>undefined\<close> when it had to stop early or when there is no name at all.
\<close>

fun baseGetLoop ::
  "(jsval \<Rightarrow> string \<Rightarrow> jsval option) \<Rightarrow> jsval \<Rightarrow> string list \<Rightarrow> jsval" where
  "baseGetLoop inh object [] = object"
| "baseGetLoop inh object (key # keys) =
     (if nullish object then JUndefined
      else baseGetLoop inh (getProperty inh object key) keys)"

definition baseGet :: "(jsval \<Rightarrow> string \<Rightarrow> jsval option) \<Rightarrow> jsval \<Rightarrow> string \<Rightarrow> jsval" where
  "baseGet inh object path =
     (if castPath inh path object = [] then JUndefined
      else baseGetLoop inh object (castPath inh path object))"

definition get ::
  "(jsval \<Rightarrow> string \<Rightarrow> jsval option) \<Rightarrow> jsval \<Rightarrow> string \<Rightarrow> jsval \<Rightarrow> jsval" where
  "get inh object path defaultValue =
     (let result = (if nullish object then JUndefined else baseGet inh object path)
      in if result = JUndefined then defaultValue else result)"

section \<open>The process-wide state\<close>

text \<open>
  A file on disk either evaluates to the value it exports or fails to load (a syntax
  error, an exception at load time). A contribution is a static value or a function of
  no argument, given by the value its call returns. The console keeps what
  \<open>console.error\<close> and \<open>console.log\<close> print.

  The loader of the runtime has two caches: \<open>require.cache\<close>, from file names to the
  exports of loaded modules, and its path cache, the file names it has resolved.

  The registry \<open>middlewares\<close> is a plain object used as a table: \<open>middlewares\<close> holds
  its own properties, \<open>middlewares_proto\<close> is \<open>None\<close> while its prototype is
  \<open>Object.prototype\<close> and \<open>Some cs\<close> once the prototype was replaced by an array with
  the elements \<open>cs\<close>.
\<close>

datatype disk_file = Module jsval | Unloadable

datatype contribution = Static jsval | Producer jsval

datatype log_entry = ConsoleError string | ConsoleLog jsval

record state =
  proc :: runtime
  disk :: "string \<rightharpoonup> disk_file"
  require_cache :: "string \<rightharpoonup> jsval"
  path_cache :: "string set"
  middlewares :: "string \<rightharpoonup> contribution list"
  middlewares_proto :: "contribution list option"
  console :: "log_entry list"

definition existsSync :: "state \<Rightarrow> string \<Rightarrow> bool" where
  "existsSync s p = (disk s p \<noteq> None)"

section \<open>Root and configuration file\<close>

text \<open>
  \<open>findRoot(...paths)\<close>: \<open>path.resolve(process.env.PLEASURE_ROOT ||
  path.dirname(findPackageJson()), ...paths)\<close>. The ascent runs only when the
  environment gives no root; \<open>path.dirname(undefined)\<close> throws a \<open>TypeError\<close>. The
  result is \<open>None\<close> when the ascent never returns.
\<close>

definition findRoot :: "state \<Rightarrow> string list \<Rightarrow> (error + string) option" where
  "findRoot s paths =
     (if envRootOr (proc s) [] \<noteq> []
      then Some (Inr (path_resolve (cwd (proc s)) (envRootOr (proc s) [] # paths)))
      else case findPackageJson (proc s) (existsSync s) None of
          None \<Rightarrow> None
        | Some None \<Rightarrow>
            Some (Inl (TypeError ''The path argument must be of type string. Received undefined''))
        | Some (Some local) \<Rightarrow>
            Some (Inr (path_resolve (cwd (proc s)) (path_dirname local # paths))))"

definition findConfig :: "state \<Rightarrow> (error + string) option" where
  "findConfig s = findRoot s [''pleasure.config.js'']"

section \<open>The module loader (\<open>require\<close>, \<open>require.resolve\<close>, \<open>require.cache\<close>)\<close>

text \<open>
  The loader of the runtime, for an absolute file name.

  \<open>require.resolve(request)\<close> answers from the path cache when the name was resolved
  before, without looking at the disk. Otherwise it looks for the file: when the file
  exists the name enters the path cache, when it does not the call fails with
  \<open>ModuleNotFound\<close> (the loader's \<open>MODULE_NOT_FOUND\<close>, which carries the name).

  \<open>require(request)\<close> first returns the exports of the module of that name when it is
  in \<open>require.cache\<close>. Otherwise it resolves the name as above and loads the file
  (\<open>loadModule\<close>): reading a file that is not there fails with \<open>FileNotFound\<close> (the
  \<open>ENOENT\<close> of the file system, which carries the name too), a file that does not
  evaluate fails with \<open>ModuleLoadError\<close>, and the exports of a file that evaluates enter
  \<open>require.cache\<close>.
\<close>

text \<open>
  The code asks for the configuration file under its full name, extension included, and
  the model resolves a request to the file of that very name. Where there is no such
  file the loader of the runtime goes on to the request with \<open>.js\<close>, \<open>.json\<close> or
  \<open>.node\<close> appended; \<open>loaderVariants\<close> gives these names, and what is said below
  about a missing file is said of states that have no file under them. The disk of the
  model holds files; directories are not represented.
\<close>

definition loaderVariants :: "string \<Rightarrow> string list" where
  "loaderVariants request = [request @ ''.js'', request @ ''.json'', request @ ''.node'']"

definition require_resolve :: "string \<Rightarrow> state \<Rightarrow> (error + string) \<times> state" where
  "require_resolve request s =
     (if request \<in> path_cache s then (Inr request, s)
      else if existsSync s request
        then (Inr request, s\<lparr>path_cache := insert request (path_cache s)\<rparr>)
      else (Inl (ModuleNotFound request), s))"

definition loadModule :: "string \<Rightarrow> state \<Rightarrow> (error + jsval) \<times> state" where
  "loadModule filename s =
     (case disk s filename of
        None \<Rightarrow> (Inl (FileNotFound filename), s)
      | Some Unloadable \<Rightarrow> (Inl (ModuleLoadError filename), s)
      | Some (Module exports) \<Rightarrow>
          (Inr exports, s\<lparr>require_cache := (require_cache s)(filename \<mapsto> exports)\<rparr>))"

definition require :: "string \<Rightarrow> state \<Rightarrow> (error + jsval) \<times> state" where
  "require request s =
     (case require_cache s request of
        Some exports \<Rightarrow> (Inr exports, s)
      | None \<Rightarrow>
          (case require_resolve request s of
             (Inl e, s') \<Rightarrow> (Inl e, s')
           | (Inr filename, s') \<Rightarrow> loadModule filename s'))"

section \<open>The extension registry\<close>

text \<open>
  A scope is \<open>None\<close> for \<open>null\<close> (or an omitted argument) and a string otherwise. It is
  truthy when it is a non-empty string. Used as a property name, \<open>null\<close> reads
  \<open>"null"\<close>.
\<close>

definition truthyScope :: "string option \<Rightarrow> bool" where
  "truthyScope scope = (case scope of None \<Rightarrow> False | Some sc \<Rightarrow> sc \<noteq> [])"

definition scopeKey :: "string option \<Rightarrow> string" where
  "scopeKey scope = (case scope of None \<Rightarrow> ''null'' | Some sc \<Rightarrow> sc)"

fun truthyContribution :: "contribution \<Rightarrow> bool" where
  "truthyContribution (Static v) = truthy v"
| "truthyContribution (Producer v) = True"

text \<open>
  The three accesses the code makes to the registry object.

  \<open>middlewares.hasOwnProperty(key)\<close> looks the method up on the registry itself. Once
  the registry has an own property named \<open>hasOwnProperty\<close> (a list of contributions),
  that list is what the lookup finds, and calling it throws a \<open>TypeError\<close>.

  \<open>middlewares[key] = []\<close> creates an own property, except for the name \<open>__proto__\<close>:
  that assignment runs the setter of \<open>Object.prototype\<close> and makes a new empty array
  the prototype of the registry.

  \<open>middlewares[key].push(replacement)\<close> reads the own property when there is one; for
  \<open>__proto__\<close> with no own property it reads the prototype; pushing on anything that
  is no array throws.
\<close>

definition registryHasOwnProperty :: "state \<Rightarrow> string \<Rightarrow> error + bool" where
  "registryHasOwnProperty s key =
     (if middlewares s ''hasOwnProperty'' \<noteq> None
      then Inl (TypeError ''middlewares.hasOwnProperty is not a function'')
      else Inr (middlewares s key \<noteq> None))"

definition registryAssignEmpty :: "string \<Rightarrow> state \<Rightarrow> state" where
  "registryAssignEmpty key s =
     (if key = ''__proto__'' then s\<lparr>middlewares_proto := Some []\<rparr>
      else s\<lparr>middlewares := (middlewares s)(key \<mapsto> [])\<rparr>)"

definition registryPush :: "string \<Rightarrow> contribution \<Rightarrow> state \<Rightarrow> error + state" where
  "registryPush key replacement s =
     (case middlewares s key of
        Some mutations \<Rightarrow>
          Inr (s\<lparr>middlewares := (middlewares s)(key \<mapsto> mutations @ [replacement])\<rparr>)
      | None \<Rightarrow>
          (case (if key = ''__proto__'' then middlewares_proto s else None) of
             Some elements \<Rightarrow> Inr (s\<lparr>middlewares_proto := Some (elements @ [replacement])\<rparr>)
           | None \<Rightarrow> Inl (TypeError ''middlewares[scope].push is not a function'')))"

text \<open>
  \<open>extendConfig(scope = '', replacement)\<close>. An absent replacement is
  \<open>Static JUndefined\<close>. The result is \<open>Inl\<close> when the call throws, and the new state
  otherwise; the early return prints with \<open>console.error\<close>.
\<close>

definition extendConfig :: "string option \<Rightarrow> contribution \<Rightarrow> state \<Rightarrow> error + state" where
  "extendConfig scope replacement s =
     (if \<not> truthyScope scope \<or> \<not> truthyContribution replacement
      then Inr (s\<lparr>console := console s @ [ConsoleError ''provide both a scope & replacement'']\<rparr>)
      else
        case registryHasOwnProperty s (scopeKey scope) of
          Inl e \<Rightarrow> Inl e
        | Inr has \<Rightarrow>
            registryPush (scopeKey scope) replacement
              (if \<not> has then registryAssignEmpty (scopeKey scope) s else s))"

text \<open>
  \<open>getMiddlewareMutation(scope)\<close>: the contributions of the scope are merged into an
  accumulator in the order of the list; a function is called, a static value is taken
  as it is. The early return for a scope that is no own property prints nothing.
\<close>

fun contributionValue :: "contribution \<Rightarrow> jsval" where
  "contributionValue (Static v) = v"
| "contributionValue (Producer v) = v"

fun applyMutations :: "jsval \<Rightarrow> contribution list \<Rightarrow> error + jsval" where
  "applyMutations middlewareMutation [] = Inr middlewareMutation"
| "applyMutations middlewareMutation (mutation # rest) =
     (case merge middlewareMutation (contributionValue mutation) of
        Inl e \<Rightarrow> Inl e
      | Inr merged \<Rightarrow> applyMutations merged rest)"

definition getMiddlewareMutation :: "string option \<Rightarrow> state \<Rightarrow> (error + jsval) \<times> state" where
  "getMiddlewareMutation scope s =
     (case registryHasOwnProperty s (scopeKey scope) of
        Inl e \<Rightarrow> (Inl e, s)
      | Inr has \<Rightarrow>
          if \<not> has then (Inr (JObj []), s)
          else
            (case applyMutations (JObj [])
                    (case middlewares s (scopeKey scope) of
                       None \<Rightarrow> []
                     | Some mutations \<Rightarrow> mutations) of
               Inl e \<Rightarrow> (Inl e, s)
             | Inr middlewareMutation \<Rightarrow>
                 (Inr middlewareMutation,
                  s\<lparr>console := console s
                       @ [ConsoleLog (JObj [(''middlewareMutation'', middlewareMutation)])]\<rparr>)))"

section \<open>\<open>getConfig\<close>\<close>

text \<open>
  The first statements of \<open>getConfig\<close>, up to \<open>const loadedConfig = require(configFile)\<close>:
  the configuration file is located, \<open>force\<close> deletes its entry of \<open>require.cache\<close>,
  and the file is required. The result is \<open>None\<close> when root discovery never returns.
\<close>

definition loadConfig :: "bool \<Rightarrow> state \<Rightarrow> ((error + jsval) \<times> state) option" where
  "loadConfig force s =
     (case findConfig s of
        None \<Rightarrow> None
      | Some (Inl e) \<Rightarrow> Some (Inl e, s)
      | Some (Inr configFile) \<Rightarrow>
          (if force then
             (case require_resolve configFile s of
                (Inl e, s') \<Rightarrow> Some (Inl e, s')
              | (Inr filename, s') \<Rightarrow>
                  Some (require configFile
                          (s'\<lparr>require_cache := (require_cache s')(filename := None)\<rparr>)))
           else Some (require configFile s)))"

text \<open>\<open>scope ? get(loadedConfig, scope, {}) : loadedConfig\<close>, the second layer.\<close>

definition baseLayer ::
  "(jsval \<Rightarrow> string \<Rightarrow> jsval option) \<Rightarrow> string option \<Rightarrow> jsval \<Rightarrow> jsval" where
  "baseLayer inh scope loadedConfig =
     (case scope of
        None \<Rightarrow> loadedConfig
      | Some sc \<Rightarrow> if sc = [] then loadedConfig else get inh loadedConfig sc (JObj []))"

text \<open>
  \<open>getConfig(scope = null, mergeWith = {}, force = false, runMiddleware = true)\<close>. The
  layers of the final \<open>merge.all\<close> are evaluated in the order of the array literal.
\<close>

definition getConfig ::
  "string option \<Rightarrow> jsval \<Rightarrow> bool \<Rightarrow> bool \<Rightarrow> state \<Rightarrow> ((error + jsval) \<times> state) option" where
  "getConfig scope mergeWith force runMiddleware s =
     (case loadConfig force s of
        None \<Rightarrow> None
      | Some (Inl e, s1) \<Rightarrow> Some (Inl e, s1)
      | Some (Inr loadedConfig, s1) \<Rightarrow>
          (case (if runMiddleware then getMiddlewareMutation scope s1
                 else (Inr (JObj []), s1)) of
             (Inl e, s2) \<Rightarrow> Some (Inl e, s2)
           | (Inr mutation, s2) \<Rightarrow>
               Some (merge_all
                       [JObj [], baseLayer (inherited (proc s1)) scope loadedConfig, mutation,
                        if truthy mergeWith then mergeWith else JObj []],
                     s2)))"

section \<open>A sample project\<close>

text \<open>
  The inherited members of the sample process. Every value other than \<open>null\<close> and
  \<open>undefined\<close> inherits the members of \<open>Object.prototype\<close>: \<open>constructor\<close> (the
  constructor of its kind), \<open>__proto__\<close> (its prototype) and the ten methods listed,
  each a built-in function named by \<open>JNative\<close>; a built-in function has its \<open>name\<close>.
  The prototypes of the sample process carry no other member.
\<close>

fun constructorName :: "jsval \<Rightarrow> string" where
  "constructorName (JObj ps) = ''Object''"
| "constructorName (JArr xs) = ''Array''"
| "constructorName (JStr s) = ''String''"
| "constructorName (JNum n) = ''Number''"
| "constructorName (JBool b) = ''Boolean''"
| "constructorName v = ''Function''"

definition sample_members :: "jsval \<Rightarrow> string \<Rightarrow> jsval option" where
  "sample_members v key =
     (if nullish v then None
      else if key = ''constructor'' then Some (JNative (constructorName v))
      else if key = ''__proto__'' then Some (JNative (constructorName v @ ''.prototype''))
      else if key \<in> set [''__defineGetter__'', ''__defineSetter__'', ''hasOwnProperty'',
                         ''__lookupGetter__'', ''__lookupSetter__'', ''isPrototypeOf'',
                         ''propertyIsEnumerable'', ''toString'', ''valueOf'', ''toLocaleString'']
        then Some (JNative key)
      else case v of
          JNative n \<Rightarrow> if key = ''name'' \<and> CHR ''.'' \<notin> set n then Some (JStr n) else None
        | _ \<Rightarrow> None)"

text \<open>
  A project rooted at \<open>/proj\<close> whose configuration file exports \<open>doc\<close>, seen from a
  working directory two levels below the root, in a fresh process: nothing loaded,
  nothing resolved, nothing registered.
\<close>

definition project :: "jsval \<Rightarrow> state" where
  "project doc =
     \<lparr>proc = \<lparr>cwd = ''/proj/src/lib'', PLEASURE_ROOT = None, inherited = sample_members\<rparr>,
      disk = [''/proj/package.json'' \<mapsto> Module (JObj [(''name'', JStr ''demo'')]),
              ''/proj/pleasure.config.js'' \<mapsto> Module doc],
      require_cache = Map.empty,
      path_cache = {},
      middlewares = Map.empty,
      middlewares_proto = None,
      console = []\<rparr>"

text \<open>
  The same project after its configuration was loaded once and the configuration file
  was then removed from the disk: the module is still in \<open>require.cache\<close> and its name
  in the path cache.
\<close>

definition deleted_after_load :: "jsval \<Rightarrow> state" where
  "deleted_after_load doc =
     (project doc)
       \<lparr>disk := [''/proj/package.json'' \<mapsto> Module (JObj [(''name'', JStr ''demo'')])],
        require_cache := [''/proj/pleasure.config.js'' \<mapsto> doc],
        path_cache := {''/proj/pleasure.config.js''}\<rparr>"

text \<open>The project with the contributions \<open>cs\<close> registered under the scope \<open>sc\<close>.\<close>

definition project_with :: "jsval \<Rightarrow> string \<Rightarrow> contribution list \<Rightarrow> state" where
  "project_with doc sc cs = (project doc)\<lparr>middlewares := [sc \<mapsto> cs]\<rparr>"

section \<open>Facts about paths\<close>

lemma splitOn_not_Nil: "splitOn sep a \<noteq> []"
  by (induction a) (auto split: list.splits)

lemma splitOn_append: "splitOn sep (a @ sep # b) = splitOn sep a @ splitOn sep b"
  using splitOn_not_Nil by (induction a) (auto split: list.splits)

lemma splitOn_no_separator: "sep \<notin> set b \<Longrightarrow> splitOn sep b = [b]"
  by (induction b) (auto split: list.splits)

lemma normalizeString_append:
  "normalizeString a res (xs @ ys) = normalizeString a (normalizeString a res xs) ys"
  by (induction xs arbitrary: res) auto

lemma joinWith_snoc:
  "joinWith sep (r @ [s]) = (if r = [] then s else joinWith sep r @ sep @ s)"
  by (induction sep r rule: joinWith.induct) auto

lemma path_normalize_not_empty: "path_normalize p \<noteq> []"
  by (auto simp: path_normalize_def Let_def)

lemma path_join_not_empty: "path_join args \<noteq> []"
  by (auto simp: path_join_def Let_def path_normalize_not_empty)

lemma normalizeString_marker:
  "normalizeString a [] (splitOn (CHR ''/'') (d @ ''/package.json''))
     = normalizeString a [] (splitOn (CHR ''/'') d) @ [''package.json'']"
proof -
  have "splitOn (CHR ''/'') (d @ ''/package.json'')
          = splitOn (CHR ''/'') d @ [''package.json'']"
    using splitOn_append [of "CHR ''/''" d "''package.json''"]
    by (simp add: splitOn_no_separator)
  then show ?thesis by (simp add: normalizeString_append)
qed

text \<open>The candidate \<open>local\<close> always ends with the name of the marker.\<close>

lemma local_ends_with_marker:
  "\<exists>pre. path_join [d, ''package.json''] = pre @ ''package.json''"
proof (cases "d = []")
  case True
  have "path_join [[], ''package.json''] = ''package.json''" by code_simp
  with True show ?thesis by simp
next
  case False
  then have j: "path_join [d, ''package.json''] = path_normalize (d @ ''/package.json'')"
    by (simp add: path_join_def)
  have abs: "isAbsolute (d @ ''/package.json'') = isAbsolute d"
    using False by (simp add: isAbsolute_def)
  show ?thesis
    unfolding j path_normalize_def abs
    by (simp add: Let_def normalizeString_marker joinWith_snoc)
qed

text \<open>So the test \<open>local === '/'\<close> of \<open>findPackageJson\<close> is false for every directory.\<close>

lemma local_not_root: "path_join [d, ''package.json''] \<noteq> ''/''"
proof
  assume eq: "path_join [d, ''package.json''] = ''/''"
  obtain pre where "path_join [d, ''package.json''] = pre @ ''package.json''"
    using local_ends_with_marker by blast
  with eq have "length (pre @ ''package.json'') = length ''/''" by simp
  then show False by simp
qed

text \<open>At the root the ascent stays where it is.\<close>

lemma parent_of_root: "path_join [''/'', ''../''] = ''/''"
  by code_simp

section \<open>The ascent\<close>

text \<open>
  Whenever \<open>findPackageJson\<close> returns, some directory of the ascent holds the marker:
  induction over the recursion.
\<close>

lemma findPackageJson_returns_marked:
  assumes "findPackageJson pr ex dir = Some y"
  shows "\<exists>k. ex (path_join [ancestor k (startDir pr dir), ''package.json''])"
proof (rule findPackageJson.raw_induct
    [where P = "\<lambda>pr ex dir y.
                  \<exists>k. ex (path_join [ancestor k (startDir pr dir), ''package.json''])",
     OF _ assms])
  fix f pr ex dir y
  assume IH: "\<And>pr ex dir y. f pr ex dir = Some y \<Longrightarrow>
                \<exists>k. ex (path_join [ancestor k (startDir pr dir), ''package.json''])"
    and step: "(let dir = startDir pr dir; local = path_join [dir, ''package.json'']
                in if \<not> ex local
                   then if local = ''/'' then Some None
                        else f pr ex (Some (path_join [dir, ''../'']))
                   else Some (Some local)) = Some y"
  show "\<exists>k. ex (path_join [ancestor k (startDir pr dir), ''package.json''])"
  proof (cases "ex (path_join [startDir pr dir, ''package.json''])")
    case True
    then have "ex (path_join [ancestor 0 (startDir pr dir), ''package.json''])" by simp
    then show ?thesis by blast
  next
    case False
    with step have "f pr ex (Some (path_join [startDir pr dir, ''../''])) = Some y"
      by (simp add: Let_def local_not_root)
    from IH [OF this] obtain k where
      "ex (path_join [ancestor k (startDir pr (Some (path_join [startDir pr dir, ''../'']))),
                      ''package.json''])"
      by blast
    then have "ex (path_join [ancestor (Suc k) (startDir pr dir), ''package.json''])"
      by (simp add: startDir_def path_join_not_empty)
    then show ?thesis by blast
  qed
qed

text \<open>
  Claim C2. The claim: from a starting directory none of whose ancestors (itself
  included) holds \<open>package.json\<close>, \<open>findPackageJson\<close> terminates and returns
  \<open>undefined\<close>. The code does the opposite: from such a directory the call never
  returns. The guard that should stop the ascent compares \<open>local\<close>, which always ends
  with \<open>package.json\<close>, with \<open>'/'\<close>; it never holds, and at the root
  \<open>path.join('/', '../')\<close> is \<open>'/'\<close> again.
\<close>

theorem findPackageJson_unmarked_never_returns:
  assumes "\<And>k. \<not> ex (path_join [ancestor k (startDir pr dir), ''package.json''])"
  shows "findPackageJson pr ex dir = None"
proof (cases "findPackageJson pr ex dir")
  case None
  then show ?thesis .
next
  case (Some y)
  from findPackageJson_returns_marked [OF this] assms show ?thesis by blast
qed

theorem findPackageJson_unmarked_never_returns_witness:
  "(\<forall>k. \<not> (\<lambda>p. False)
          (path_join [ancestor k (startDir \<lparr>cwd = ''/'', PLEASURE_ROOT = None\<rparr> (Some ''/tmp/work'')),
                      ''package.json'']))
   \<and> findPackageJson \<lparr>cwd = ''/'', PLEASURE_ROOT = None\<rparr> (\<lambda>p. False) (Some ''/tmp/work'') = None"
  using findPackageJson_unmarked_never_returns
          [of "\<lambda>p. False" "\<lparr>cwd = ''/'', PLEASURE_ROOT = None\<rparr>" "Some ''/tmp/work''"]
  by simp

section \<open>Facts about the deep merge\<close>

text \<open>
  The property of a merged object at a key, when the keys of the source are distinct (as
  the keys of a JavaScript object are): a key of the source takes the source value, or
  the recursive merge when the target has the key and the source value is mergeable; any
  other key keeps what the destination had.
\<close>

lemma map_of_mergeKeys:
  "distinct (map fst ps) \<Longrightarrow>
   map_of (mergeKeys target ps dest) k =
     (case map_of ps k of
        None \<Rightarrow> map_of dest k
      | Some v \<Rightarrow> Some (case map_of (ownProps target) k of
                         None \<Rightarrow> v
                       | Some t \<Rightarrow> if isMergeableObject v then deepmerge t v else v))"
proof (induction ps arbitrary: dest)
  case Nil
  then show ?case by simp
next
  case (Cons p ps)
  obtain k0 v0 where p: "p = (k0, v0)" by (cases p)
  from Cons.prems p have d: "distinct (map fst ps)" and n: "k0 \<notin> fst ` set ps" by auto
  from n have none: "map_of ps k0 = None" by (simp add: map_of_eq_None_iff)
  show ?case
    unfolding p using Cons.IH [OF d] none
    by (auto simp: update_conv' split: option.splits)
qed

lemma keys_mergeKeys:
  "fst ` set (mergeKeys target ps dest) = fst ` set dest \<union> fst ` set ps"
proof (induction ps arbitrary: dest)
  case Nil
  then show ?case by simp
next
  case (Cons p ps)
  obtain k0 v0 where p: "p = (k0, v0)" by (cases p)
  show ?case unfolding p by (auto simp: Cons.IH dom_update)
qed

lemma deepmerge_objects:
  "deepmerge (JObj t) (JObj s) = JObj (mergeKeys (JObj t) s t)"
  by (simp add: deepmerge.simps)


lemma merge_objects: "merge (JObj t) (JObj s) = Inr (JObj (mergeKeys (JObj t) s t))"
  by (simp add: merge_def deepmerge_objects)

text \<open>
  Merging an object into the empty object gives the object back: the clone that the
  library makes of a value is the value.
\<close>

lemma update_new: "k \<notin> fst ` set al \<Longrightarrow> AList.update k v al = al @ [(k, v)]"
  by (induction al) auto

lemma mergeKeys_clone:
  "distinct (map fst (dest @ ps)) \<Longrightarrow> mergeKeys (JObj []) ps dest = dest @ ps"
proof (induction ps arbitrary: dest)
  case Nil
  then show ?case by simp
next
  case (Cons p ps)
  obtain k v where p: "p = (k, v)" by (cases p)
  from Cons.prems p have new: "k \<notin> fst ` set dest" by auto
  from Cons.prems p have "distinct (map fst ((dest @ [(k, v)]) @ ps))" by auto
  from Cons.IH [OF this] show ?case
    unfolding p by (simp add: update_new [OF new])
qed

lemma clone_object:
  "distinct (map fst ps) \<Longrightarrow> deepmerge (JObj []) (JObj ps) = JObj ps"
  using mergeKeys_clone [of "[]" ps] by (simp add: deepmerge.simps)

lemma merge_all_document_only:
  "distinct (map fst ps) \<Longrightarrow> merge_all [JObj [], JObj ps, JObj [], JObj []] = Inr (JObj ps)"
  by (simp add: merge_all_def merge_def clone_object) (simp add: deepmerge.simps)

lemma merge_all_empty_base:
  "merge_all [JObj [], JObj [], m, ov] = merge_all [m, ov]"
  by (simp add: merge_all_def merge_def deepmerge.simps)

lemma map_of_clone:
  assumes "distinct (map fst a)"
  shows "map_of (mergeKeys (JObj []) a []) = map_of a"
  by (rule ext) (simp add: map_of_mergeKeys [OF assms] split: option.splits)


section \<open>Facts about loading\<close>

lemma findConfig_project: "findConfig (project doc) = Some (Inr ''/proj/pleasure.config.js'')"
  by code_simp

lemma findConfig_project_with:
  "findConfig (project_with doc sc cs) = Some (Inr ''/proj/pleasure.config.js'')"
  by code_simp

lemma loadConfig_project:
  "loadConfig False (project doc)
     = Some (Inr doc, (project doc)\<lparr>path_cache := {''/proj/pleasure.config.js''},
                                    require_cache := [''/proj/pleasure.config.js'' \<mapsto> doc]\<rparr>)"
  unfolding loadConfig_def findConfig_project
  by (simp add: require_def require_resolve_def loadModule_def existsSync_def project_def)

lemma loadConfig_project_with:
  "loadConfig False (project_with doc sc cs)
     = Some (Inr doc, (project_with doc sc cs)
                        \<lparr>path_cache := {''/proj/pleasure.config.js''},
                         require_cache := [''/proj/pleasure.config.js'' \<mapsto> doc]\<rparr>)"
  unfolding loadConfig_def findConfig_project_with
  by (simp add: require_def require_resolve_def loadModule_def existsSync_def
      project_with_def project_def)

text \<open>The state \<open>deleted_after_load\<close> is reached by a load and the removal of the file.\<close>

lemma deleted_after_load_reached:
  "deleted_after_load doc =
     (snd (the (loadConfig False (project doc))))
        \<lparr>disk := (disk (project doc))(''/proj/pleasure.config.js'' := None)\<rparr>"
  by (simp add: loadConfig_project deleted_after_load_def) (simp add: project_def)

lemma require_resolve_preserves:
  assumes "require_resolve f s = (r, s1)"
  shows "require_cache s1 = require_cache s \<and> proc s1 = proc s \<and> disk s1 = disk s
         \<and> middlewares s1 = middlewares s \<and> console s1 = console s"
  using assms by (auto simp: require_resolve_def split: if_splits)

lemma require_result:
  assumes "require f s = (Inr doc, s1)"
  shows "require_cache s1 f = Some doc \<and> proc s1 = proc s \<and> disk s1 = disk s
         \<and> middlewares s1 = middlewares s \<and> console s1 = console s"
  using assms
  by (auto simp: require_def require_resolve_def loadModule_def
      split: option.splits disk_file.splits if_splits)

lemma require_preserves:
  assumes "require f s = (r, s1)"
  shows "proc s1 = proc s \<and> disk s1 = disk s
         \<and> middlewares s1 = middlewares s \<and> console s1 = console s"
  using assms
  by (auto simp: require_def require_resolve_def loadModule_def
      split: option.splits disk_file.splits if_splits)

text \<open>Root discovery reads the process state and the existence of files, nothing else.\<close>

lemma findConfig_cong:
  assumes "proc s2 = proc s" "dom (disk s2) = dom (disk s)"
  shows "findConfig s2 = findConfig s"
proof -
  have "existsSync s2 = existsSync s"
    using assms(2) by (auto simp: existsSync_def fun_eq_iff dom_def)
  then show ?thesis unfolding findConfig_def findRoot_def assms(1) by simp
qed

lemma loadConfig_False_result:
  assumes "loadConfig False s = Some (Inr doc, s1)"
  shows "\<exists>f. findConfig s = Some (Inr f) \<and> require f s = (Inr doc, s1)"
  using assms
  by (auto simp: loadConfig_def split: option.splits sum.splits)

lemma loadConfig_preserves:
  assumes "loadConfig force s = Some (r, s1)"
  shows "middlewares s1 = middlewares s \<and> console s1 = console s
         \<and> proc s1 = proc s \<and> disk s1 = disk s"
proof -
  from assms obtain f where f: "findConfig s = Some (Inr f) \<or> s1 = s"
    by (auto simp: loadConfig_def split: option.splits sum.splits)
  show ?thesis
  proof (cases "s1 = s")
    case True
    then show ?thesis by simp
  next
    case False
    with f have cfg: "findConfig s = Some (Inr f)" by simp
    show ?thesis
    proof (cases force)
      case False
      with assms cfg have "require f s = (r, s1)" by (simp add: loadConfig_def)
      from require_preserves [OF this] show ?thesis by simp
    next
      case True
      obtain e s' where rr: "require_resolve f s = (e, s')" by (cases "require_resolve f s")
      from require_resolve_preserves [OF rr] have
        p: "require_cache s' = require_cache s \<and> proc s' = proc s \<and> disk s' = disk s
            \<and> middlewares s' = middlewares s \<and> console s' = console s" .
      show ?thesis
      proof (cases e)
        case (Inl err)
        with assms cfg True rr have "s1 = s'" by (simp add: loadConfig_def)
        with p show ?thesis by simp
      next
        case (Inr filename)
        with assms cfg True rr have
          "require f (s'\<lparr>require_cache := (require_cache s')(filename := None)\<rparr>) = (r, s1)"
          by (simp add: loadConfig_def)
        from require_preserves [OF this] p show ?thesis by simp
      qed
    qed
  qed
qed

lemma loadConfig_answers_from_cache:
  assumes first: "loadConfig False s = Some (Inr doc, s1)"
    and p: "proc s2 = proc s1"
    and c: "require_cache s2 = require_cache s1"
    and d: "dom (disk s2) = dom (disk s1)"
  shows "loadConfig False s2 = Some (Inr doc, s2)"
proof -
  from loadConfig_False_result [OF first] obtain f where
    f: "findConfig s = Some (Inr f)" and r: "require f s = (Inr doc, s1)" by blast
  from require_result [OF r] have
    c1: "require_cache s1 f = Some doc" and p1: "proc s1 = proc s" and d1: "disk s1 = disk s"
    by simp_all
  have "findConfig s2 = findConfig s"
    by (rule findConfig_cong) (simp_all add: p p1 d d1)
  then show ?thesis
    by (simp add: loadConfig_def f require_def c c1)
qed

section \<open>Facts about the registry\<close>

lemma getMiddlewareMutation_preserves:
  assumes "getMiddlewareMutation scope s = (r, s')"
  shows "proc s' = proc s \<and> disk s' = disk s \<and> require_cache s' = require_cache s
         \<and> middlewares s' = middlewares s"
  using assms
  by (auto simp: getMiddlewareMutation_def split: option.splits sum.splits if_splits)

lemma getMiddlewareMutation_value:
  "middlewares s2 = middlewares s1 \<Longrightarrow>
   fst (getMiddlewareMutation scope s2) = fst (getMiddlewareMutation scope s1)"
  by (simp add: getMiddlewareMutation_def registryHasOwnProperty_def
      split: option.splits sum.splits)

lemma getConfig_success:
  assumes "getConfig scope mw force rm s = Some (Inr r, s')"
  shows "\<exists>doc s1 mu. loadConfig force s = Some (Inr doc, s1)
           \<and> (if rm then getMiddlewareMutation scope s1 else (Inr (JObj []), s1)) = (Inr mu, s')"
  using assms
  by (auto simp: getConfig_def Let_def split: option.splits sum.splits prod.splits if_splits)

lemma applyMutations_reduceMerge:
  "applyMutations acc cs = reduceMerge acc (map contributionValue cs)"
  by (induction cs arbitrary: acc) (auto split: sum.splits)

text \<open>
  A well-formed registration under an ordinary scope, in a registry whose
  \<open>hasOwnProperty\<close> is intact, appends the contribution to the list of the scope.
\<close>

lemma extendConfig_ordinary:
  assumes "sc \<noteq> []" "sc \<noteq> ''__proto__''" "truthyContribution c"
    and "middlewares s ''hasOwnProperty'' = None"
  shows "extendConfig (Some sc) c s
           = Inr (s\<lparr>middlewares := (middlewares s)
                     (sc \<mapsto> (case middlewares s sc of None \<Rightarrow> [] | Some old \<Rightarrow> old) @ [c])\<rparr>)"
  using assms
  by (auto simp: extendConfig_def truthyScope_def scopeKey_def registryHasOwnProperty_def
      registryAssignEmpty_def registryPush_def split: option.splits)

text \<open>
  For such a scope with the contributions \<open>cs\<close>, \<open>getMiddlewareMutation\<close> returns
  the merge of their values in the order of the list; the value of a function is what
  its call returns.
\<close>

lemma getMiddlewareMutation_ordinary:
  assumes "middlewares s ''hasOwnProperty'' = None" "middlewares s sc = Some cs"
  shows "fst (getMiddlewareMutation (Some sc) s) = merge_all (map contributionValue cs)"
  using assms
  by (simp add: getMiddlewareMutation_def scopeKey_def registryHasOwnProperty_def
      applyMutations_reduceMerge merge_all_def split: sum.splits)

lemma getMiddlewareMutation_producer_called:
  "fst (getMiddlewareMutation (Some ''x'')
          (project_with JNull ''x''
             [Static (JObj [(''a'', JNum 1)]), Producer (JObj [(''a'', JNum 2), (''b'', JNum 3)])]))
     = Inr (JObj [(''a'', JNum 2), (''b'', JNum 3)])"
  by code_simp

section \<open>The final merge of \<open>getConfig\<close>\<close>




section \<open>A missing configuration file\<close>

text \<open>
  Claim C3, as stated: in every state where the root resolves and no configuration file
  exists at the expected path, \<open>getConfig\<close> fails with an error naming that path. It
  fails in the state reached by loading the configuration and then removing the file:
  with \<open>force = false\<close> the call answers from \<open>require.cache\<close> and returns the
  document it loaded before.
\<close>

theorem getConfig_missing_file_counterexample:
  "findConfig (deleted_after_load (JObj [(''port'', JNum 3000)]))
     = Some (Inr ''/proj/pleasure.config.js'')
   \<and> disk (deleted_after_load (JObj [(''port'', JNum 3000)])) ''/proj/pleasure.config.js'' = None
   \<and> map_option fst
         (getConfig None JUndefined False True (deleted_after_load (JObj [(''port'', JNum 3000)])))
       = Some (Inr (JObj [(''port'', JNum 3000)]))"
  by code_simp

text \<open>
  Claim C3, amended: when the root resolves to the path \<open>configFile\<close>, and either
  \<open>force\<close> is set or the module is not in \<open>require.cache\<close>, then \<open>getConfig\<close> fails
  if no file is there, whatever the other arguments are, with an error that carries the
  expected path: \<open>ModuleNotFound configFile\<close> from the loader when the loader has not
  resolved the path before, and \<open>FileNotFound configFile\<close> from reading the file
  when it has (the path was loaded earlier in the process). Both differ from the
  failure of a file that exists but does not load, which is \<open>ModuleLoadError configFile\<close>.
  No file means no file under the expected name nor under the names the loader would
  try next (\<open>loaderVariants\<close>).
\<close>

theorem getConfig_missing_file:
  assumes cfg: "findConfig s = Some (Inr configFile)"
    and cold: "force \<or> require_cache s configFile = None"
  shows "(disk s configFile = None \<and> (\<forall>f \<in> set (loaderVariants configFile). disk s f = None)
            \<longrightarrow>
            map_option fst (getConfig scope mergeWith force runMiddleware s)
              = Some (Inl (if configFile \<in> path_cache s then FileNotFound configFile
                           else ModuleNotFound configFile)))
       \<and> (disk s configFile = Some Unloadable \<longrightarrow>
            map_option fst (getConfig scope mergeWith force runMiddleware s)
              = Some (Inl (ModuleLoadError configFile)))"
proof (cases "require_cache s configFile")
  case None
  then show ?thesis
    by (auto simp: getConfig_def loadConfig_def cfg require_resolve_def require_def
        loadModule_def existsSync_def)
next
  case (Some v)
  with cold have force by simp
  then show ?thesis
    by (auto simp: getConfig_def loadConfig_def cfg require_resolve_def require_def
        loadModule_def existsSync_def Some)
qed

text \<open>
  Claim C3, the amended statement on three states: the file removed after a load and
  \<open>force = true\<close> (the read fails); a fresh process of a project with no
  configuration file (the loader does not find the module); a fresh process with a file
  that does not load.
\<close>

theorem getConfig_missing_file_witness:
  "map_option fst
     (getConfig (Some ''api'') JUndefined True True
        (deleted_after_load (JObj [(''port'', JNum 3000)])))
     = Some (Inl (FileNotFound ''/proj/pleasure.config.js''))
   \<and> map_option fst
         (getConfig (Some ''api'') JUndefined False True
            ((project JNull)\<lparr>disk := [''/proj/package.json'' \<mapsto> Module JNull]\<rparr>))
     = Some (Inl (ModuleNotFound ''/proj/pleasure.config.js''))
   \<and> map_option fst
         (getConfig (Some ''api'') JUndefined False True
            ((project JNull)\<lparr>disk := [''/proj/package.json'' \<mapsto> Module JNull,
                                      ''/proj/pleasure.config.js'' \<mapsto> Unloadable]\<rparr>))
     = Some (Inl (ModuleLoadError ''/proj/pleasure.config.js''))"
proof -
  let ?a = "deleted_after_load (JObj [(''port'', JNum 3000)])"
  let ?b = "(project JNull)\<lparr>disk := [''/proj/package.json'' \<mapsto> Module JNull]\<rparr>"
  let ?c = "(project JNull)\<lparr>disk := [''/proj/package.json'' \<mapsto> Module JNull,
                                      ''/proj/pleasure.config.js'' \<mapsto> Unloadable]\<rparr>"
  have ca: "findConfig ?a = Some (Inr ''/proj/pleasure.config.js'')" by code_simp
  have cb: "findConfig ?b = Some (Inr ''/proj/pleasure.config.js'')" by code_simp
  have cc: "findConfig ?c = Some (Inr ''/proj/pleasure.config.js'')" by code_simp
  have a: "disk ?a ''/proj/pleasure.config.js'' = None
           \<and> (\<forall>f \<in> set (loaderVariants ''/proj/pleasure.config.js''). disk ?a f = None)
           \<and> ''/proj/pleasure.config.js'' \<in> path_cache ?a"
    by (simp add: deleted_after_load_def loaderVariants_def)
  have b: "disk ?b ''/proj/pleasure.config.js'' = None
           \<and> (\<forall>f \<in> set (loaderVariants ''/proj/pleasure.config.js''). disk ?b f = None)
           \<and> require_cache ?b ''/proj/pleasure.config.js'' = None
           \<and> ''/proj/pleasure.config.js'' \<notin> path_cache ?b"
    by (simp add: project_def loaderVariants_def)
  have c: "disk ?c ''/proj/pleasure.config.js'' = Some Unloadable
           \<and> require_cache ?c ''/proj/pleasure.config.js'' = None"
    by (simp add: project_def)
  show ?thesis
    using getConfig_missing_file [OF ca, of True "Some ''api''" JUndefined True] a
      getConfig_missing_file [OF cb, of False "Some ''api''" JUndefined True] b
      getConfig_missing_file [OF cc, of False "Some ''api''" JUndefined True] c
    by simp
qed

section \<open>Cache and forced reload\<close>

text \<open>
  Claim C4: of two consecutive loads with \<open>force = false\<close>, the second returns the
  document of the first, even if the content of the file changed in between. The first
  load leaves the state \<open>s1\<close>; the second runs in any state \<open>s2\<close> with the same process
  state and the same \<open>require.cache\<close> (no forced load in between) in which the same
  files exist, with whatever content. This holds for the load itself and for the value
  \<open>getConfig\<close> returns when the registry is the same as well.
\<close>

theorem getConfig_cached_document:
  "(loadConfig False s = Some (Inr doc, s1) \<and> proc s2 = proc s1
      \<and> require_cache s2 = require_cache s1 \<and> dom (disk s2) = dom (disk s1)
      \<longrightarrow> loadConfig False s2 = Some (Inr doc, s2))
   \<and> (getConfig scope mergeWith False runMiddleware s = Some (Inr r, s1) \<and> proc s2 = proc s1
      \<and> require_cache s2 = require_cache s1 \<and> dom (disk s2) = dom (disk s1)
      \<and> middlewares s2 = middlewares s1
      \<longrightarrow> map_option fst (getConfig scope mergeWith False runMiddleware s2) = Some (Inr r))"
proof (intro conjI impI)
  assume "loadConfig False s = Some (Inr doc, s1) \<and> proc s2 = proc s1
      \<and> require_cache s2 = require_cache s1 \<and> dom (disk s2) = dom (disk s1)"
  then show "loadConfig False s2 = Some (Inr doc, s2)"
    using loadConfig_answers_from_cache by blast
next
  assume h: "getConfig scope mergeWith False runMiddleware s = Some (Inr r, s1) \<and> proc s2 = proc s1
      \<and> require_cache s2 = require_cache s1 \<and> dom (disk s2) = dom (disk s1)
      \<and> middlewares s2 = middlewares s1"
  then obtain doc s0 mu where l: "loadConfig False s = Some (Inr doc, s0)"
    and m: "(if runMiddleware then getMiddlewareMutation scope s0 else (Inr (JObj []), s0))
              = (Inr mu, s1)"
    using getConfig_success by blast
  have same: "proc s1 = proc s0 \<and> disk s1 = disk s0 \<and> require_cache s1 = require_cache s0
              \<and> middlewares s1 = middlewares s0"
    using m getMiddlewareMutation_preserves [of scope s0 "Inr mu" s1]
    by (cases runMiddleware) auto
  have l2: "loadConfig False s2 = Some (Inr doc, s2)"
    using loadConfig_answers_from_cache [OF l, of s2] h same by simp
  have mv: "fst (getMiddlewareMutation scope s2) = fst (getMiddlewareMutation scope s0)"
    using getMiddlewareMutation_value [of s2 s0 scope] h same by simp
  have p: "proc s2 = proc s0" using h same by simp
  have first: "getConfig scope mergeWith False runMiddleware s
                 = Some (merge_all [JObj [], baseLayer (inherited (proc s0)) scope doc,
                      mu, if truthy mergeWith then mergeWith else JObj []], s1)"
    using m by (simp add: getConfig_def l split: if_splits)
  have second: "map_option fst (getConfig scope mergeWith False runMiddleware s2)
                 = Some (merge_all [JObj [], baseLayer (inherited (proc s0)) scope doc,
                      mu, if truthy mergeWith then mergeWith else JObj []])"
  proof (cases runMiddleware)
    case False
    with m have "mu = JObj []" by simp
    with False show ?thesis by (simp add: getConfig_def l2 p)
  next
    case True
    with m have "fst (getMiddlewareMutation scope s0) = Inr mu" by simp
    with mv have "fst (getMiddlewareMutation scope s2) = Inr mu" by simp
    then obtain s3 where "getMiddlewareMutation scope s2 = (Inr mu, s3)"
      by (cases "getMiddlewareMutation scope s2") auto
    with True show ?thesis by (simp add: getConfig_def l2 p)
  qed
  from first h have "merge_all [JObj [], baseLayer (inherited (proc s0)) scope doc,
                      mu, if truthy mergeWith then mergeWith else JObj []] = Inr r"
    by simp
  with second show "map_option fst (getConfig scope mergeWith False runMiddleware s2) = Some (Inr r)"
    by simp
qed

text \<open>
  Claim C4 on the sample project: the file is loaded with port 3000 and then edited to
  port 8080; the second load still gives port 3000.
\<close>

theorem getConfig_cached_document_witness:
  "loadConfig False
     ((project (JObj [(''port'', JNum 3000)]))
        \<lparr>disk := [''/proj/package.json'' \<mapsto> Module (JObj [(''name'', JStr ''demo'')]),
                  ''/proj/pleasure.config.js'' \<mapsto> Module (JObj [(''port'', JNum 8080)])],
         path_cache := {''/proj/pleasure.config.js''},
         require_cache := [''/proj/pleasure.config.js'' \<mapsto> JObj [(''port'', JNum 3000)]]\<rparr>)
   = Some (Inr (JObj [(''port'', JNum 3000)]),
     ((project (JObj [(''port'', JNum 3000)]))
        \<lparr>disk := [''/proj/package.json'' \<mapsto> Module (JObj [(''name'', JStr ''demo'')]),
                  ''/proj/pleasure.config.js'' \<mapsto> Module (JObj [(''port'', JNum 8080)])],
         path_cache := {''/proj/pleasure.config.js''},
         require_cache := [''/proj/pleasure.config.js'' \<mapsto> JObj [(''port'', JNum 3000)]]\<rparr>))"
  using getConfig_cached_document
          [where s = "project (JObj [(''port'', JNum 3000)])"
             and doc = "JObj [(''port'', JNum 3000)]"
             and ?s1.0 = "(project (JObj [(''port'', JNum 3000)]))
                         \<lparr>path_cache := {''/proj/pleasure.config.js''},
                          require_cache := [''/proj/pleasure.config.js'' \<mapsto>
                              JObj [(''port'', JNum 3000)]]\<rparr>"
             and ?s2.0 = "(project (JObj [(''port'', JNum 3000)]))
        \<lparr>disk := [''/proj/package.json'' \<mapsto> Module (JObj [(''name'', JStr ''demo'')]),
                  ''/proj/pleasure.config.js'' \<mapsto> Module (JObj [(''port'', JNum 8080)])],
         path_cache := {''/proj/pleasure.config.js''},
         require_cache := [''/proj/pleasure.config.js'' \<mapsto> JObj [(''port'', JNum 3000)]]\<rparr>"]
    loadConfig_project [of "JObj [(''port'', JNum 3000)]"]
  by (simp add: project_def)

text \<open>
  Claim C5: in a state where the configuration module is cached, a load with
  \<open>force = true\<close> deletes the entry of \<open>require.cache\<close> and requires the file again, so
  it returns the document \<open>new\<close> that the file holds now, and the cache holds \<open>new\<close>
  afterwards (the name of the file is in the path cache, where a load had put it
  before). When \<open>new\<close> is an object, \<open>getConfig\<close> with no scope, no override and no
  extensions returns it.
\<close>

theorem loadConfig_force_rereads:
  assumes cfg: "findConfig s = Some (Inr configFile)"
    and cached: "require_cache s configFile = Some old"
    and ondisk: "disk s configFile = Some (Module new)"
  shows "loadConfig True s
           = Some (Inr new, s\<lparr>path_cache := insert configFile (path_cache s),
                               require_cache := (require_cache s)(configFile \<mapsto> new)\<rparr>)
       \<and> (\<forall>ps. new = JObj ps \<and> distinct (map fst ps) \<longrightarrow>
             getConfig None JUndefined True False s
               = Some (Inr new, s\<lparr>path_cache := insert configFile (path_cache s),
                                   require_cache := (require_cache s)(configFile \<mapsto> new)\<rparr>))"
proof -
  have l: "loadConfig True s
           = Some (Inr new, s\<lparr>path_cache := insert configFile (path_cache s),
                               require_cache := (require_cache s)(configFile \<mapsto> new)\<rparr>)"
    by (simp add: loadConfig_def cfg require_resolve_def cached require_def loadModule_def
        ondisk existsSync_def insert_absorb)
  then show ?thesis
    by (auto simp: getConfig_def baseLayer_def merge_all_document_only)
qed

text \<open>
  Claim C5 on the sample project: port 3000 is cached, the file holds port 8080, and the
  forced load returns port 8080.
\<close>

theorem loadConfig_force_rereads_witness:
  "loadConfig True
     ((project (JObj [(''port'', JNum 8080)]))
        \<lparr>path_cache := {''/proj/pleasure.config.js''},
         require_cache := [''/proj/pleasure.config.js'' \<mapsto> JObj [(''port'', JNum 3000)]]\<rparr>)
   = Some (Inr (JObj [(''port'', JNum 8080)]),
           (project (JObj [(''port'', JNum 8080)]))
             \<lparr>path_cache := {''/proj/pleasure.config.js''},
              require_cache := [''/proj/pleasure.config.js'' \<mapsto> JObj [(''port'', JNum 8080)]]\<rparr>)"
proof -
  have c: "findConfig ((project (JObj [(''port'', JNum 8080)]))
        \<lparr>path_cache := {''/proj/pleasure.config.js''},
         require_cache := [''/proj/pleasure.config.js'' \<mapsto> JObj [(''port'', JNum 3000)]]\<rparr>)
     = Some (Inr ''/proj/pleasure.config.js'')"
    by code_simp
  show ?thesis
    using loadConfig_force_rereads
            [OF c, of "JObj [(''port'', JNum 3000)]" "JObj [(''port'', JNum 8080)]"]
    by (simp add: project_def)
qed

section \<open>Scope, override and extensions\<close>

text \<open>
  Claim C6: the configuration document has \<open>api: {port: 3000, host: "x"}\<close>, nothing is
  registered for \<open>api\<close> (and no registration has replaced the \<open>hasOwnProperty\<close> of
  the registry), and \<open>getConfig('api', {port: 4000})\<close> returns the object with
  exactly the two properties \<open>port: 4000\<close> and \<open>host: "x"\<close>: the override wins on
  \<open>port\<close>, and \<open>host\<close> is kept from the base. The properties are listed in the order
  the merge creates them; an object is the same object in any order.
\<close>

theorem getConfig_api_port_override:
  assumes load: "loadConfig force s = Some (Inr (JObj doc), s1)"
    and api: "map_of doc ''api'' = Some (JObj [(''port'', JNum 3000), (''host'', JStr ''x'')])"
    and none: "middlewares s ''api'' = None"
    and intact: "middlewares s ''hasOwnProperty'' = None"
  shows "getConfig (Some ''api'') (JObj [(''port'', JNum 4000)]) force True s
           = Some (Inr (JObj [(''port'', JNum 4000), (''host'', JStr ''x'')]), s1)"
proof -
  from loadConfig_preserves [OF load] none intact
  have m: "middlewares s1 ''api'' = None" "middlewares s1 ''hasOwnProperty'' = None"
    by simp_all
  have deep: "\<not> isDeepProp ''api''" by code_simp
  have g: "baseLayer (inherited (proc s1)) (Some ''api'') (JObj doc)
             = JObj [(''port'', JNum 3000), (''host'', JStr ''x'')]"
    by (simp add: baseLayer_def get_def baseGet_def castPath_def deep getProperty_def api)
  have mm: "getMiddlewareMutation (Some ''api'') s1 = (Inr (JObj []), s1)"
    by (simp add: getMiddlewareMutation_def registryHasOwnProperty_def scopeKey_def m)
  have res: "merge_all [JObj [], JObj [(''port'', JNum 3000), (''host'', JStr ''x'')], JObj [],
                        JObj [(''port'', JNum 4000)]]
               = Inr (JObj [(''port'', JNum 4000), (''host'', JStr ''x'')])"
    by code_simp
  show ?thesis
    by (simp add: getConfig_def load g mm res)
qed

text \<open>Claim C6 on the sample project, whose document is exactly \<open>{api: {...}}\<close>.\<close>

theorem getConfig_api_port_override_witness:
  "getConfig (Some ''api'') (JObj [(''port'', JNum 4000)]) False True
     (project (JObj [(''api'', JObj [(''port'', JNum 3000), (''host'', JStr ''x'')])]))
   = Some (Inr (JObj [(''port'', JNum 4000), (''host'', JStr ''x'')]),
           (project (JObj [(''api'', JObj [(''port'', JNum 3000), (''host'', JStr ''x'')])]))
             \<lparr>path_cache := {''/proj/pleasure.config.js''},
              require_cache := [''/proj/pleasure.config.js'' \<mapsto>
                  JObj [(''api'', JObj [(''port'', JNum 3000), (''host'', JStr ''x'')])]]\<rparr>)"
  by (rule getConfig_api_port_override [OF loadConfig_project]) (simp_all add: project_def)

text \<open>
  Two objects \<open>a\<close> and then \<open>b\<close> registered under an ordinary scope that had no
  contribution: the composition has at every key of \<open>b\<close> the value of \<open>b\<close> (merged
  recursively with the value of \<open>a\<close> when both have the key and the value of \<open>b\<close> is
  an object or an array), and at every other key what \<open>a\<close> has.
\<close>

lemma compose_two_objects:
  assumes sc: "sc \<noteq> []" "sc \<noteq> ''__proto__''" "sc \<noteq> ''hasOwnProperty''"
    and intact: "middlewares s ''hasOwnProperty'' = None"
    and fresh: "middlewares s sc = None"
    and da: "distinct (map fst a)" and db: "distinct (map fst b)"
  shows "\<exists>s1 s2 r. extendConfig (Some sc) (Static (JObj a)) s = Inr s1
           \<and> extendConfig (Some sc) (Producer (JObj b)) s1 = Inr s2
           \<and> fst (getMiddlewareMutation (Some sc) s2) = Inr (JObj r)
           \<and> (\<forall>k. map_of r k =
                 (case map_of b k of
                    None \<Rightarrow> map_of a k
                  | Some v \<Rightarrow> Some (case map_of a k of
                                     None \<Rightarrow> v
                                   | Some t \<Rightarrow> if isMergeableObject v then deepmerge t v else v)))"
proof -
  define s1 where "s1 = s\<lparr>middlewares := (middlewares s)(sc \<mapsto> [Static (JObj a)])\<rparr>"
  define s2 where
    "s2 = s1\<lparr>middlewares := (middlewares s1)(sc \<mapsto> [Static (JObj a), Producer (JObj b)])\<rparr>"
  define a' where "a' = mergeKeys (JObj []) a []"
  define r where "r = mergeKeys (JObj a') b a'"
  have e1: "extendConfig (Some sc) (Static (JObj a)) s = Inr s1"
    using extendConfig_ordinary [of sc "Static (JObj a)" s] sc intact fresh
    by (simp add: s1_def)
  have i1: "middlewares s1 ''hasOwnProperty'' = None"
    using sc intact by (simp add: s1_def)
  have e2: "extendConfig (Some sc) (Producer (JObj b)) s1 = Inr s2"
    using extendConfig_ordinary [of sc "Producer (JObj b)" s1] sc i1
    by (simp add: s1_def s2_def)
  have i2: "middlewares s2 ''hasOwnProperty'' = None"
    using sc i1 by (simp add: s2_def)
  have m2: "middlewares s2 sc = Some [Static (JObj a), Producer (JObj b)]"
    by (simp add: s2_def)
  have ma: "map_of a' = map_of a" unfolding a'_def by (rule map_of_clone [OF da])
  have v: "fst (getMiddlewareMutation (Some sc) s2) = Inr (JObj r)"
    using getMiddlewareMutation_ordinary [OF i2 m2]
    by (simp add: merge_all_def merge_objects r_def a'_def)
  have k: "map_of r k =
             (case map_of b k of
                None \<Rightarrow> map_of a k
              | Some v \<Rightarrow> Some (case map_of a k of
                                 None \<Rightarrow> v
                               | Some t \<Rightarrow> if isMergeableObject v then deepmerge t v else v))" for k
    unfolding r_def by (simp add: map_of_mergeKeys [OF db] ma split: option.splits)
  from e1 e2 v k show ?thesis by blast
qed

text \<open>
  Claim C7. The claim: \<open>getMiddlewareMutation\<close> returns the empty object for a scope
  with no contribution, and for every scope the merge of its contributions in the
  order of registration. For ordinary scope names the code does this
  (\<open>extendConfig_ordinary\<close>, \<open>getMiddlewareMutation_ordinary\<close>,
  \<open>compose_two_objects\<close>). It does not for the scope \<open>__proto__\<close>: the registry is
  a plain object, the assignment \<open>middlewares['__proto__'] = []\<close> replaces its
  prototype instead of creating a property, the contribution is pushed on that
  prototype, and \<open>getMiddlewareMutation('__proto__')\<close> finds no own property and
  returns the empty object. The contribution is lost.
\<close>

theorem extendConfig_proto_scope_lost:
  assumes intact: "middlewares s ''hasOwnProperty'' = None"
    and noown: "middlewares s ''__proto__'' = None"
    and c: "truthyContribution c"
  shows "extendConfig (Some ''__proto__'') c s = Inr (s\<lparr>middlewares_proto := Some [c]\<rparr>)
       \<and> getMiddlewareMutation (Some ''__proto__'') (s\<lparr>middlewares_proto := Some [c]\<rparr>)
           = (Inr (JObj []), s\<lparr>middlewares_proto := Some [c]\<rparr>)"
  using assms
  by (simp add: extendConfig_def truthyScope_def scopeKey_def registryHasOwnProperty_def
      registryAssignEmpty_def registryPush_def getMiddlewareMutation_def)

text \<open>
  Claim C7 at the failing input: after \<open>extendConfig('__proto__', {a: 1})\<close> in a fresh
  process, \<open>getMiddlewareMutation('__proto__')\<close> is \<open>{}\<close> where the claim has \<open>{a: 1}\<close>;
  the same registration under the scope \<open>x\<close> gives \<open>{a: 1}\<close>.
\<close>

theorem extendConfig_proto_scope_lost_witness:
  "extendConfig (Some ''__proto__'') (Static (JObj [(''a'', JNum 1)])) (project JNull)
     = Inr ((project JNull)\<lparr>middlewares_proto := Some [Static (JObj [(''a'', JNum 1)])]\<rparr>)
   \<and> fst (getMiddlewareMutation (Some ''__proto__'')
            ((project JNull)\<lparr>middlewares_proto := Some [Static (JObj [(''a'', JNum 1)])]\<rparr>))
       = Inr (JObj [])
   \<and> extendConfig (Some ''x'') (Static (JObj [(''a'', JNum 1)])) (project JNull)
       = Inr (project_with JNull ''x'' [Static (JObj [(''a'', JNum 1)])])
   \<and> fst (getMiddlewareMutation (Some ''x'')
            (project_with JNull ''x'' [Static (JObj [(''a'', JNum 1)])]))
       = Inr (JObj [(''a'', JNum 1)])"
proof -
  have m: "middlewares (project JNull) ''hasOwnProperty'' = None
           \<and> middlewares (project JNull) ''__proto__'' = None
           \<and> middlewares (project JNull) ''x'' = None"
    by (simp add: project_def)
  have x: "extendConfig (Some ''x'') (Static (JObj [(''a'', JNum 1)])) (project JNull)
             = Inr (project_with JNull ''x'' [Static (JObj [(''a'', JNum 1)])])"
    using extendConfig_ordinary [of "''x''" "Static (JObj [(''a'', JNum 1)])" "project JNull"]
    by (simp add: project_with_def project_def)
  have v: "fst (getMiddlewareMutation (Some ''x'')
            (project_with JNull ''x'' [Static (JObj [(''a'', JNum 1)])]))
       = Inr (JObj [(''a'', JNum 1)])"
    by code_simp
  show ?thesis
    using extendConfig_proto_scope_lost [of "project JNull" "Static (JObj [(''a'', JNum 1)])"] m x v
    by simp
qed

text \<open>
  Claim C8: a call of \<open>extendConfig\<close> with an empty scope (\<open>null\<close>, omitted or the
  empty string) or an absent replacement (\<open>undefined\<close> or \<open>null\<close>) does not throw and
  changes nothing but the console, where it prints one diagnostic with
  \<open>console.error\<close>; the registry is the same afterwards. This holds in every state of
  the registry, also after a registration has replaced its \<open>hasOwnProperty\<close>: the
  early return comes before the registry is touched.
\<close>

theorem extendConfig_malformed_is_logged:
  assumes "scope = None \<or> scope = Some [] \<or> replacement = Static JUndefined
           \<or> replacement = Static JNull"
  shows "extendConfig scope replacement s
           = Inr (s\<lparr>console := console s @ [ConsoleError ''provide both a scope & replacement'']\<rparr>)
         \<and> map_sum id middlewares (extendConfig scope replacement s) = Inr (middlewares s)"
  using assms by (auto simp: extendConfig_def truthyScope_def)

text \<open>
  Claim C8 on three calls: an empty scope, a scope with no replacement, and a malformed
  call on a registry whose \<open>hasOwnProperty\<close> was replaced.
\<close>

theorem extendConfig_malformed_is_logged_witness:
  "extendConfig (Some []) (Static (JObj [(''port'', JNum 4000)])) (project JNull)
     = Inr ((project JNull)\<lparr>console := [ConsoleError ''provide both a scope & replacement'']\<rparr>)
   \<and> extendConfig (Some ''api'') (Static JUndefined) (project JNull)
     = Inr ((project JNull)\<lparr>console := [ConsoleError ''provide both a scope & replacement'']\<rparr>)
   \<and> extendConfig None (Static (JObj []))
         (project_with JNull ''hasOwnProperty'' [Static (JObj [])])
     = Inr ((project_with JNull ''hasOwnProperty'' [Static (JObj [])])
              \<lparr>console := [ConsoleError ''provide both a scope & replacement'']\<rparr>)"
  using extendConfig_malformed_is_logged
          [of "Some []" "Static (JObj [(''port'', JNum 4000)])" "project JNull"]
    extendConfig_malformed_is_logged [of "Some ''api''" "Static JUndefined" "project JNull"]
    extendConfig_malformed_is_logged
      [of None "Static (JObj [])" "project_with JNull ''hasOwnProperty'' [Static (JObj [])]"]
  by (simp add: project_with_def project_def)

text \<open>
  Claim C9, as stated: for every scope string that addresses nothing in the document,
  the base layer is the empty object. It fails for the empty string: \<open>get(doc, '')\<close> is
  \<open>undefined\<close>, yet the test \<open>scope ? ... : loadedConfig\<close> treats the empty string as
  no scope, and the base layer is the whole document.
\<close>

theorem getConfig_empty_scope_counterexample:
  "baseGet sample_members (JObj [(''port'', JNum 3000)]) [] = JUndefined
   \<and> map_option fst
         (getConfig (Some []) JUndefined False True (project (JObj [(''port'', JNum 3000)])))
       = Some (Inr (JObj [(''port'', JNum 3000)]))
   \<and> merge_all [JObj [], JObj []] = Inr (JObj [])"
  by code_simp

text \<open>
  Claim C9, amended: for every non-empty scope string for which the lookup in the
  loaded document gives \<open>undefined\<close>, the lookup raises nothing, the base layer is the
  empty object, and \<open>getConfig\<close> returns what the merge of the extension mutation
  and the override returns. The lookup is the one of lodash: it reads bracket groups in
  the scope and follows inherited members, given by the prototypes of the process.
\<close>

theorem getConfig_missing_scope:
  assumes ne: "sc \<noteq> []"
    and load: "loadConfig force s = Some (Inr doc, s1)"
    and missing: "baseGet (inherited (proc s)) doc sc = JUndefined"
  shows "getConfig (Some sc) mergeWith force runMiddleware s =
     (case (if runMiddleware then getMiddlewareMutation (Some sc) s1 else (Inr (JObj []), s1)) of
        (Inl e, s2) \<Rightarrow> Some (Inl e, s2)
      | (Inr mutation, s2) \<Rightarrow>
          Some (merge_all [mutation, if truthy mergeWith then mergeWith else JObj []], s2))"
proof -
  from loadConfig_preserves [OF load] have "proc s1 = proc s" by simp
  then have "baseLayer (inherited (proc s1)) (Some sc) doc = JObj []"
    by (simp add: baseLayer_def ne get_def missing)
  then show ?thesis
    by (simp add: getConfig_def load merge_all_empty_base
        split: prod.splits sum.splits)
qed

text \<open>
  Claim C9, the amended statement on the sample project: \<open>ui.theme\<close> addresses nothing,
  and the result is the override alone.
\<close>

theorem getConfig_missing_scope_witness:
  "getConfig (Some ''ui.theme'') (JObj [(''port'', JNum 4000)]) False True
     (project (JObj [(''api'', JObj [(''port'', JNum 3000)])]))
   = Some (Inr (JObj [(''port'', JNum 4000)]),
           (project (JObj [(''api'', JObj [(''port'', JNum 3000)])]))
              \<lparr>path_cache := {''/proj/pleasure.config.js''},
               require_cache := [''/proj/pleasure.config.js'' \<mapsto>
                  JObj [(''api'', JObj [(''port'', JNum 3000)])]]\<rparr>)"
proof -
  have b: "baseGet (inherited (proc (project (JObj [(''api'', JObj [(''port'', JNum 3000)])]))))
             (JObj [(''api'', JObj [(''port'', JNum 3000)])]) ''ui.theme'' = JUndefined"
    by code_simp
  have v: "merge_all [JObj [], JObj [(''port'', JNum 4000)]] = Inr (JObj [(''port'', JNum 4000)])"
    by code_simp
  show ?thesis
    using getConfig_missing_scope
            [OF _ loadConfig_project b, of "JObj [(''port'', JNum 4000)]" True]
    by (simp add: getMiddlewareMutation_def registryHasOwnProperty_def scopeKey_def v project_def)
qed

text \<open>
  With nothing registered under the name \<open>"null"\<close> and the \<open>hasOwnProperty\<close> of the
  registry intact, the extension mutation of a call with \<open>scope = null\<close> is empty:
  contributions registered under named scopes do not show in the whole document. The
  doc comment of \<open>extendConfig\<close> promises otherwise: after
  \<open>extendConfig('api', {port: 4000})\<close> it has \<open>getConfig()\<close> return the document with
  \<open>port: 4000\<close> in \<open>api\<close>.
\<close>

lemma getConfig_null_scope_ignores_named:
  assumes "''null'' \<notin> dom (middlewares s)" and "middlewares s ''hasOwnProperty'' = None"
  shows "getConfig None mergeWith force True s = getConfig None mergeWith force False s"
proof -
  from assms have n: "middlewares s ''null'' = None" by auto
  have 2: "getMiddlewareMutation None s1 = (Inr (JObj []), s1)"
    if "loadConfig force s = Some (r, s1)" for r s1
    using loadConfig_preserves [OF that] n assms(2)
    by (simp add: getMiddlewareMutation_def registryHasOwnProperty_def scopeKey_def)
  show ?thesis
    by (auto simp: getConfig_def 2 split: option.splits sum.splits prod.splits)
qed

lemma getConfig_doc_comment_example:
  "map_option fst
     (getConfig None JUndefined False True
        (project_with (JObj [(''api'', JObj [(''port'', JNum 3000)])]) ''api''
           [Static (JObj [(''port'', JNum 4000)])]))
   = Some (Inr (JObj [(''api'', JObj [(''port'', JNum 3000)])]))"
  by code_simp

text \<open>
  Claim C10. The claim: when no scope named \<open>"null"\<close> is registered, a call of
  \<open>getConfig\<close> with \<open>scope = null\<close> and \<open>runMiddleware = true\<close> applies an empty
  mutation. The code does not in a registry that holds a contribution under the scope
  \<open>hasOwnProperty\<close>: that own property hides the method, the call
  \<open>middlewares.hasOwnProperty(scope)\<close> in \<open>getMiddlewareMutation\<close> throws a
  \<open>TypeError\<close>, and so does every \<open>getConfig\<close> with \<open>runMiddleware = true\<close>, for any
  scope, once the configuration is loaded.
\<close>

theorem getConfig_throws_after_hasOwnProperty_scope:
  assumes shadow: "middlewares s ''hasOwnProperty'' \<noteq> None"
    and load: "loadConfig force s = Some (Inr doc, s1)"
  shows "getConfig scope mergeWith force True s
           = Some (Inl (TypeError ''middlewares.hasOwnProperty is not a function''), s1)"
proof -
  from loadConfig_preserves [OF load] shadow
  have "middlewares s1 ''hasOwnProperty'' \<noteq> None" by simp
  then have "getMiddlewareMutation scope s1
               = (Inl (TypeError ''middlewares.hasOwnProperty is not a function''), s1)"
    by (simp add: getMiddlewareMutation_def registryHasOwnProperty_def)
  then show ?thesis by (simp add: getConfig_def load)
qed

text \<open>
  Claim C10 at the failing input: in a fresh process
  \<open>extendConfig('hasOwnProperty', {a: 1})\<close> succeeds; no scope is named \<open>"null"\<close>;
  \<open>getConfig(null, undefined, false, true)\<close> throws, while the same call with
  \<open>runMiddleware = false\<close> returns the document.
\<close>

theorem getConfig_throws_after_hasOwnProperty_scope_witness:
  "extendConfig (Some ''hasOwnProperty'') (Static (JObj [(''a'', JNum 1)]))
      (project (JObj [(''port'', JNum 3000)]))
     = Inr (project_with (JObj [(''port'', JNum 3000)]) ''hasOwnProperty''
              [Static (JObj [(''a'', JNum 1)])])
   \<and> ''null'' \<notin> dom (middlewares (project_with (JObj [(''port'', JNum 3000)]) ''hasOwnProperty''
                                     [Static (JObj [(''a'', JNum 1)])]))
   \<and> map_option fst
        (getConfig None JUndefined False True
           (project_with (JObj [(''port'', JNum 3000)]) ''hasOwnProperty''
              [Static (JObj [(''a'', JNum 1)])]))
       = Some (Inl (TypeError ''middlewares.hasOwnProperty is not a function''))
   \<and> map_option fst
        (getConfig None JUndefined False False
           (project_with (JObj [(''port'', JNum 3000)]) ''hasOwnProperty''
              [Static (JObj [(''a'', JNum 1)])]))
       = Some (Inr (JObj [(''port'', JNum 3000)]))"
proof -
  let ?s = "project_with (JObj [(''port'', JNum 3000)]) ''hasOwnProperty''
              [Static (JObj [(''a'', JNum 1)])]"
  have e: "extendConfig (Some ''hasOwnProperty'') (Static (JObj [(''a'', JNum 1)]))
             (project (JObj [(''port'', JNum 3000)])) = Inr ?s"
    using extendConfig_ordinary
            [of "''hasOwnProperty''" "Static (JObj [(''a'', JNum 1)])"
                "project (JObj [(''port'', JNum 3000)])"]
    by (simp add: project_with_def project_def)
  have m: "middlewares ?s ''hasOwnProperty'' \<noteq> None \<and> ''null'' \<notin> dom (middlewares ?s)"
    by (simp add: project_with_def)
  have f: "map_option fst (getConfig None JUndefined False False ?s)
             = Some (Inr (JObj [(''port'', JNum 3000)]))"
    by code_simp
  show ?thesis
    using getConfig_throws_after_hasOwnProperty_scope
            [OF _ loadConfig_project_with, of "JObj [(''port'', JNum 3000)]"
               "''hasOwnProperty''" "[Static (JObj [(''a'', JNum 1)])]" None JUndefined]
      e m f
    by simp
qed


end
